theory Spec2Isabelle
  imports Main
begin

section \<open>Strings of the Go runtime\<close>

text \<open>
  A Go \<^verbatim>\<open>string\<close> is a sequence of bytes; it is modelled as \<^typ>\<open>string\<close>, one
  \<^typ>\<open>char\<close> per byte. The functions of this section are the ones of the Go standard
  library that \<^verbatim>\<open>main1.go\<close> calls (packages \<^verbatim>\<open>strings\<close>, \<^verbatim>\<open>bufio\<close>, \<^verbatim>\<open>net\<close>,
  \<^verbatim>\<open>path/filepath\<close>), written after their documented behaviour on Unix.
\<close>

abbreviation NL :: char where "NL \<equiv> CHR 0x0A"
abbreviation CR :: char where "CR \<equiv> CHR 0x0D"

subsection \<open>strings.TrimSpace\<close>

text \<open>
  \<^verbatim>\<open>unicode.IsSpace\<close> on the UTF-8 encoding: the width in bytes of the white-space
  character a string starts with, 0 when it starts with none. The characters are
  U+0009..U+000D, U+0020, U+0085, U+00A0, U+1680, U+2000..U+200A, U+2028, U+2029, U+202F,
  U+205F and U+3000.
\<close>

definition asciiSpace :: "char \<Rightarrow> bool" where
  "asciiSpace c = (c = CHR 0x09 \<or> c = NL \<or> c = CHR 0x0B \<or> c = CHR 0x0C \<or> c = CR \<or> c = CHR 0x20)"

definition space3 :: "char \<Rightarrow> char \<Rightarrow> char \<Rightarrow> bool" where
  "space3 a b c =
     ((a = CHR 0xE1 \<and> b = CHR 0x9A \<and> c = CHR 0x80) \<or>
      (a = CHR 0xE2 \<and> b = CHR 0x80 \<and>
         ((0x80 \<le> (of_char c :: nat) \<and> (of_char c :: nat) \<le> 0x8A) \<or>
          c = CHR 0xA8 \<or> c = CHR 0xA9 \<or> c = CHR 0xAF)) \<or>
      (a = CHR 0xE2 \<and> b = CHR 0x81 \<and> c = CHR 0x9F) \<or>
      (a = CHR 0xE3 \<and> b = CHR 0x80 \<and> c = CHR 0x80))"

definition space2 :: "char \<Rightarrow> char \<Rightarrow> bool" where
  "space2 a b = (a = CHR 0xC2 \<and> (b = CHR 0x85 \<or> b = CHR 0xA0))"

fun TrimLeftSpace :: "string \<Rightarrow> string" where
  "TrimLeftSpace [] = []"
| "TrimLeftSpace (a # s) =
     (if asciiSpace a then TrimLeftSpace s
      else case s of
        [] \<Rightarrow> [a]
      | b # t \<Rightarrow>
          if space2 a b then TrimLeftSpace t
          else (case t of
                  [] \<Rightarrow> [a, b]
                | c # u \<Rightarrow> if space3 a b c then TrimLeftSpace u else a # s))"

text \<open>
  The right end is trimmed on the reversed string, where the bytes of a character come
  in the opposite order.
\<close>

fun TrimLeftSpaceRev :: "string \<Rightarrow> string" where
  "TrimLeftSpaceRev [] = []"
| "TrimLeftSpaceRev (c # s) =
     (if asciiSpace c then TrimLeftSpaceRev s
      else case s of
        [] \<Rightarrow> [c]
      | b # t \<Rightarrow>
          if space2 b c then TrimLeftSpaceRev t
          else (case t of
                  [] \<Rightarrow> [c, b]
                | a # u \<Rightarrow> if space3 a b c then TrimLeftSpaceRev u else c # s))"

definition TrimSpace :: "string \<Rightarrow> string" where
  "TrimSpace s = rev (TrimLeftSpaceRev (rev (TrimLeftSpace s)))"

subsection \<open>strings.Contains, strings.Split, strings.Replace\<close>

definition Contains :: "string \<Rightarrow> char \<Rightarrow> bool" where
  \<comment> \<open>\<^verbatim>\<open>strings.Contains(s, sep)\<close> for a separator of one byte\<close>
  "Contains s sep = (sep \<in> set s)"

fun Split :: "string \<Rightarrow> char \<Rightarrow> string list" where
  \<comment> \<open>\<^verbatim>\<open>strings.Split(s, sep)\<close> for a separator of one byte: at least one piece\<close>
  "Split [] sep = [[]]"
| "Split (c # s) sep =
     (if c = sep then [] # Split s sep
      else case Split s sep of
             [] \<Rightarrow> [[c]]
           | p # ps \<Rightarrow> (c # p) # ps)"

definition HasPrefix :: "string \<Rightarrow> string \<Rightarrow> bool" where
  "HasPrefix s p = (take (length p) s = p)"

text \<open>
  \<^verbatim>\<open>strings.Replace(s, old, new, n)\<close>: the first \<open>n\<close> non-overlapping occurrences of
  \<open>old\<close>, from the left, are replaced; all of them when \<open>n < 0\<close>. Every call of the
  program passes a non-empty \<open>old\<close>; for an empty one, which Go matches between
  characters, the model returns \<open>s\<close>.
\<close>

function Replace :: "string \<Rightarrow> string \<Rightarrow> string \<Rightarrow> int \<Rightarrow> string" where
  "Replace s old new n =
     (if n = 0 \<or> old = [] \<or> s = [] then s
      else if HasPrefix s old then new @ Replace (drop (length old) s) old new (n - 1)
      else hd s # Replace (tl s) old new n)"
  by pat_completeness auto
termination
  by (relation "measure (\<lambda>(s, old, new, n). length s)") auto

declare Replace.simps [simp del]

subsection \<open>bufio.Scanner with the default split function ScanLines\<close>

text \<open>
  The scanner delivers the text between newlines, a final line without newline when it
  is not empty, each without one trailing carriage return. A line of
  \<^verbatim>\<open>bufio.MaxScanTokenSize\<close> = 65536 bytes or more does not fit the buffer: \<^verbatim>\<open>Scan\<close>
  returns false there, and the loop of \<^verbatim>\<open>unmarshal\<close>, which never looks at
  \<^verbatim>\<open>s.Err()\<close>, ends as at the end of the input.
\<close>

definition MaxScanTokenSize :: int where
  "MaxScanTokenSize = 65536"

definition dropCR :: "string \<Rightarrow> string" where
  "dropCR l = (if l \<noteq> [] \<and> last l = CR then butlast l else l)"

fun ScanLines :: "string \<Rightarrow> string \<Rightarrow> string list" where
  \<comment> \<open>first argument: the bytes of the current line read so far, reversed\<close>
  "ScanLines acc [] = (if acc = [] then [] else [rev acc])"
| "ScanLines acc (c # s) = (if c = NL then rev acc # ScanLines [] s else ScanLines (c # acc) s)"

definition Scan :: "string \<Rightarrow> string list" where
  "Scan input = map dropCR (takeWhile (\<lambda>l. int (length l) < MaxScanTokenSize) (ScanLines [] input))"

subsection \<open>net.SplitHostPort, net.JoinHostPort\<close>

fun IndexByte :: "string \<Rightarrow> char \<Rightarrow> nat option" where
  \<comment> \<open>the index of the first \<open>c\<close>; \<open>None\<close> is Go's -1\<close>
  "IndexByte [] c = None"
| "IndexByte (x # s) c = (if x = c then Some 0 else map_option Suc (IndexByte s c))"

definition LastIndexByte :: "string \<Rightarrow> char \<Rightarrow> nat option" where
  "LastIndexByte s c =
     (case IndexByte (rev s) c of None \<Rightarrow> None | Some k \<Rightarrow> Some (length s - 1 - k))"

datatype AddrError = missingPort | tooManyColons | missingBracket | unexpectedOpen | unexpectedClose

definition SplitHostPort :: "string \<Rightarrow> AddrError + string \<times> string" where
  "SplitHostPort hostport =
     (case LastIndexByte hostport (CHR '':'') of
        None \<Rightarrow> Inl missingPort
      | Some i \<Rightarrow>
          if hd hostport = CHR ''[''
          then (case IndexByte hostport (CHR '']'') of
                  None \<Rightarrow> Inl missingBracket
                | Some e \<Rightarrow>
                    if e + 1 = length hostport then Inl missingPort
                    else if e + 1 = i then
                      (if IndexByte (drop 1 hostport) (CHR ''['') \<noteq> None then Inl unexpectedOpen
                       else if IndexByte (drop (e + 1) hostport) (CHR '']'') \<noteq> None
                       then Inl unexpectedClose
                       else Inr (take (e - 1) (drop 1 hostport), drop (i + 1) hostport))
                    else if hostport ! (e + 1) = CHR '':'' then Inl tooManyColons
                    else Inl missingPort)
          else
            if IndexByte (take i hostport) (CHR '':'') \<noteq> None then Inl tooManyColons
            else if IndexByte hostport (CHR ''['') \<noteq> None then Inl unexpectedOpen
            else if IndexByte hostport (CHR '']'') \<noteq> None then Inl unexpectedClose
            else Inr (take i hostport, drop (i + 1) hostport))"

definition JoinHostPort :: "string \<Rightarrow> string \<Rightarrow> string" where
  "JoinHostPort h p =
     (if IndexByte h (CHR '':'') \<noteq> None then ''['' @ h @ '']:'' @ p else h @ '':'' @ p)"

subsection \<open>filepath.Join, filepath.Clean\<close>

fun cleanElems :: "bool \<Rightarrow> string list \<Rightarrow> string list \<Rightarrow> string list" where
  \<comment> \<open>second argument: the elements kept so far, the last one first\<close>
  "cleanElems rooted out [] = rev out"
| "cleanElems rooted out (e # es) =
     (if e = [] \<or> e = ''.'' then cleanElems rooted out es
      else if e = ''..'' then
        (case out of
           [] \<Rightarrow> if rooted then cleanElems rooted [] es else cleanElems rooted [e] es
         | x # xs \<Rightarrow> if x = ''..'' then cleanElems rooted (e # out) es
                     else cleanElems rooted xs es)
      else cleanElems rooted (e # out) es)"

fun StringsJoin :: "string list \<Rightarrow> string \<Rightarrow> string" where
  \<comment> \<open>\<^verbatim>\<open>strings.Join(elems, sep)\<close>\<close>
  "StringsJoin [] sep = []"
| "StringsJoin [e] sep = e"
| "StringsJoin (e # es) sep = e @ sep @ StringsJoin es sep"

definition Clean :: "string \<Rightarrow> string" where
  "Clean path =
     (if path = [] then ''.''
      else let rooted = (hd path = CHR ''/'');
               out = cleanElems rooted [] (Split path (CHR ''/''))
           in if rooted then ''/'' @ StringsJoin out ''/''
              else if out = [] then ''.'' else StringsJoin out ''/'')"

definition Join :: "string list \<Rightarrow> string" where
  "Join elem =
     (case dropWhile (\<lambda>e. e = []) elem of
        [] \<Rightarrow> []
      | es \<Rightarrow> Clean (StringsJoin es ''/''))"

section \<open>The inventory: unmarshal\<close>

record host =
  user :: string
  addr :: string
  identity :: string

text \<open>The two variables of the environment that the program reads with \<^verbatim>\<open>os.Getenv\<close>.\<close>

record environ =
  USER :: string
  HOME :: string

text \<open>A run-time panic of Go; the only one \<^verbatim>\<open>unmarshal\<close> can raise is an index out of range.\<close>

datatype panic = IndexOutOfRange

type_synonym inventory = "string \<rightharpoonup> host list"

text \<open>
  Lines 57 to 95 of \<^verbatim>\<open>main1.go\<close>: the host of a line that is neither blank nor a
  header. \<^verbatim>\<open>parts[1]\<close> and \<^verbatim>\<open>h.identity[0]\<close> are the indexings that can fail.
\<close>

definition hostAddr :: "string \<Rightarrow> string" where
  "hostAddr line =
     (let (h, port) = (case SplitHostPort line of Inl _ \<Rightarrow> ([], []) | Inr hp \<Rightarrow> hp);
          h = (if h = [] then line else h);
          port = (if port = [] then ''22'' else port)
      in JoinHostPort h port)"

definition hostUser :: "host \<Rightarrow> string \<Rightarrow> panic + host" where
  "hostUser h line =
     (if Contains line (CHR ''@'') then
        (case Split line (CHR ''@'') of
           p0 # p1 # _ \<Rightarrow> Inr (h\<lparr>user := p0, addr := hostAddr p1\<rparr>)
         | _ \<Rightarrow> Inl IndexOutOfRange)
      else Inr (h\<lparr>addr := hostAddr line\<rparr>))"

definition hostLine :: "environ \<Rightarrow> string \<Rightarrow> panic + host" where
  "hostLine env line =
     (let h = \<lparr>user = USER env, addr = [], identity = Join [HOME env, ''.ssh'', ''id_rsa'']\<rparr>
      in if Contains line (CHR '' '') then
           (case Split line (CHR '' '') of
              p0 # p1 # _ \<Rightarrow>
                (case p1 of
                   [] \<Rightarrow> Inl IndexOutOfRange
                 | c # _ \<Rightarrow>
                     hostUser
                       (h\<lparr>identity := (if c = CHR ''~'' then Replace p1 ''~'' (HOME env) 1 else p1)\<rparr>)
                       p0)
            | _ \<Rightarrow> Inl IndexOutOfRange)
         else hostUser h line)"

fun unmarshalLoop :: "environ \<Rightarrow> string \<Rightarrow> inventory \<Rightarrow> string list \<Rightarrow> panic + inventory" where
  "unmarshalLoop env cur m [] = Inr m"
| "unmarshalLoop env cur m (ln # rest) =
     (let line = TrimSpace ln in
      if line = [] then unmarshalLoop env cur m rest
      else if last line = CHR '':'' then unmarshalLoop env (butlast line) m rest
      else
        let m1 = (if m cur = None then m(cur \<mapsto> []) else m) in
        case hostLine env line of
          Inl e \<Rightarrow> Inl e
        | Inr h \<Rightarrow>
            unmarshalLoop env cur
              (m1(cur \<mapsto> (case m1 cur of None \<Rightarrow> [] | Some hs \<Rightarrow> hs) @ [h])) rest)"

definition unmarshal :: "environ \<Rightarrow> string \<Rightarrow> panic + inventory" where
  "unmarshal env r = unmarshalLoop env [] Map.empty (Scan r)"

section \<open>The attempt on one host with one credential: run\<close>

text \<open>The text of a Go \<^verbatim>\<open>error\<close> value.\<close>

type_synonym error = string

text \<open>
  What \<^verbatim>\<open>sess.CombinedOutput\<close> returns beside the output: no error, an
  \<^verbatim>\<open>*ssh.ExitError\<close> (the command ran and left with a non-zero status), or another
  error.
\<close>

datatype cmdError = NoError | ExitError error | OtherError error

text \<open>
  The files, the network and the remote host are outside the program. An \<open>attempt\<close>
  says how far one call of \<^verbatim>\<open>run\<close> gets among \<^verbatim>\<open>ioutil.ReadFile\<close>,
  \<^verbatim>\<open>ssh.ParsePrivateKey\<close>, \<^verbatim>\<open>ssh.Dial\<close>, \<^verbatim>\<open>conn.NewSession\<close> and
  \<^verbatim>\<open>sess.CombinedOutput\<close>; the \<open>remote\<close> gives it for a host, a command and the path of
  a key.
\<close>

datatype attempt =
    ReadFileFails error
  | ParsePrivateKeyFails error
  | DialFails error
  | NewSessionFails error
  | CombinedOutput string cmdError

type_synonym remote = "host \<Rightarrow> string \<Rightarrow> string \<Rightarrow> attempt"

definition run :: "remote \<Rightarrow> host \<Rightarrow> string \<Rightarrow> string \<Rightarrow> string \<times> error option" where
  "run R h cmd cert =
     (case R h cmd cert of
        ReadFileFails err \<Rightarrow> ([], Some err)
      | ParsePrivateKeyFails err \<Rightarrow> ([], Some err)
      | DialFails err \<Rightarrow> ([], Some err)
      | NewSessionFails err \<Rightarrow> ([], Some err)
      | CombinedOutput b NoError \<Rightarrow> (b, None)
      | CombinedOutput b (ExitError err) \<Rightarrow> (b, None)
      | CombinedOutput b (OtherError err) \<Rightarrow> (b, Some err))"

section \<open>The task of one host\<close>

text \<open>What a goroutine or \<^verbatim>\<open>main\<close> does to the world outside, in the order it does it.\<close>

datatype action =
    Run host string string  \<comment> \<open>a call \<^verbatim>\<open>run(h, cmd, cert)\<close>\<close>
  | SendErrs error          \<comment> \<open>\<^verbatim>\<open>errs <- err\<close>\<close>
  | SendOut string          \<comment> \<open>\<^verbatim>\<open>out <- p\<close>\<close>
  | WriteHosts string       \<comment> \<open>the file \<^verbatim>\<open>hosts\<close> truncated and written with this text\<close>
  | AppendSucc string       \<comment> \<open>this text appended to the file \<^verbatim>\<open>succ.txt\<close>\<close>
  | Println string          \<comment> \<open>\<^verbatim>\<open>fmt.Println\<close>, on the standard output\<close>
  | Stderr string           \<comment> \<open>\<^verbatim>\<open>fmt.Fprintf(os.Stderr, ...)\<close>\<close>

text \<open>
  The world of a task: the remote side, the errors, if any, of opening \<^verbatim>\<open>hosts\<close> for
  writing and of opening, writing and closing \<^verbatim>\<open>succ.txt\<close>, and what \<^verbatim>\<open>fmt\<close> prints
  for a format that holds a verb and has no operand.
\<close>

record world =
  remote :: remote
  openHosts :: "error option"
  openSucc :: "error option"
  writeSucc :: "error option"
  closeSucc :: "error option"
  verbs :: "string \<Rightarrow> string"

definition Fprintf0 :: "(string \<Rightarrow> string) \<Rightarrow> string \<Rightarrow> string" where
  \<comment> \<open>\<^verbatim>\<open>fmt.Fprintf(f, format)\<close> without operands: a format without \<^verbatim>\<open>%\<close> is written as it is\<close>
  "Fprintf0 vb format = (if CHR ''%'' \<in> set format then vb format else format)"

definition log :: "world \<Rightarrow> string \<Rightarrow> action list" where
  "log W txt =
     (case openSucc W of
        Some err \<Rightarrow> [Println err]
      | None \<Rightarrow>
          (case writeSucc W of
             Some err \<Rightarrow> [Println err]
           | None \<Rightarrow>
               (case closeSucc W of
                  Some err \<Rightarrow> [AppendSucc (txt @ [NL]), Println err]
                | None \<Rightarrow> [AppendSucc (txt @ [NL])])))"

text \<open>
  Lines 204 to 226: the loop over the credentials in the goroutine of one host. The
  variable \<^verbatim>\<open>saveHosts\<close>, which all goroutines share, is passed in and returned: the
  model runs one task at a time and does not interleave the steps of two tasks. A send
  on \<^verbatim>\<open>errs\<close> or \<^verbatim>\<open>out\<close> waits for \<^verbatim>\<open>main\<close> to receive; the model takes every message
  as received, as it is while the loop of \<^verbatim>\<open>main\<close> runs.
\<close>

fun taskLoop :: "world \<Rightarrow> host \<Rightarrow> string \<Rightarrow> string \<Rightarrow> string list \<Rightarrow> action list \<times> string" where
  "taskLoop W h cmd saveHosts [] = ([], saveHosts)"
| "taskLoop W h cmd saveHosts (cert # certs) =
     (case run (remote W) h cmd (''certs/'' @ cert) of
        (b, Some err) \<Rightarrow>
          (let (acts, saveHosts') = taskLoop W h cmd saveHosts certs
           in (Run h cmd (''certs/'' @ cert) # SendErrs err # acts, saveHosts'))
      | (b, None) \<Rightarrow>
          (let outlog = user h @ ''@'' @ addr h @ '' '' @ identity h;
               saveHosts1 = Replace saveHosts (outlog @ [NL]) [] (- 1);
               saveHosts2 = Replace saveHosts1 outlog [] (- 1)
           in case openHosts W of
                Some err \<Rightarrow> ([Run h cmd (''certs/'' @ cert), Println err], saveHosts2)
              | None \<Rightarrow>
                  ([Run h cmd (''certs/'' @ cert), WriteHosts (Fprintf0 (verbs W) saveHosts2)] @
                   log W (user h @ ''@'' @ addr h @ '' '' @ cert @ '' '' @ Replace b [NL] [] (- 1)) @
                   [SendOut (''Host: '' @ addr h @ [NL] @ b)],
                   saveHosts2)))"

text \<open>What a list of actions holds of each kind.\<close>

fun runs :: "action list \<Rightarrow> string list" where
  "runs [] = []"
| "runs (Run h cmd cert # acts) = cert # runs acts"
| "runs (a # acts) = runs acts"

fun sentErrs :: "action list \<Rightarrow> error list" where
  "sentErrs [] = []"
| "sentErrs (SendErrs err # acts) = err # sentErrs acts"
| "sentErrs (a # acts) = sentErrs acts"

fun sentOut :: "action list \<Rightarrow> string list" where
  "sentOut [] = []"
| "sentOut (SendOut p # acts) = p # sentOut acts"
| "sentOut (a # acts) = sentOut acts"

fun mutates :: "action \<Rightarrow> bool" where
  "mutates (WriteHosts t) = True"
| "mutates (AppendSucc t) = True"
| "mutates a = False"

section \<open>The start of main\<close>

text \<open>
  \<^verbatim>\<open>readCerts\<close>: the names of the entries of the directory \<^verbatim>\<open>certs\<close> that are not
  directories; an entry is its name and whether it is a directory.
\<close>

definition readCerts :: "error + (string \<times> bool) list \<Rightarrow> action list \<times> string list" where
  "readCerts dir =
     (case dir of
        Inl err \<Rightarrow> ([Println err], [])
      | Inr r \<Rightarrow> ([], map fst (filter (\<lambda>ri. \<not> snd ri) r)))"

text \<open>
  \<^verbatim>\<open>bufio.Reader.ReadLine\<close> with the default buffer of 4096 bytes, called until the end
  of the file: each call returns a line without its end, or the 4096 bytes of a line
  that does not fit the buffer (without the last of them when it is a carriage return,
  which is left for the next call).
\<close>

definition defaultBufSize :: int where
  "defaultBufSize = 4096"

fun ReadLine :: "string \<Rightarrow> string \<Rightarrow> string list" where
  \<comment> \<open>first argument: the bytes in the buffer, reversed\<close>
  "ReadLine acc [] = (if acc = [] then [] else [rev acc])"
| "ReadLine acc (c # s) =
     (if c = NL then dropCR (rev acc) # ReadLine [] s
      else if int (length acc) + 1 = defaultBufSize then
        (if c = CR then rev acc # ReadLine [c] s else rev (c # acc) # ReadLine [] s)
      else ReadLine (c # acc) s)"

text \<open>
  The process: its arguments, its environment, what \<^verbatim>\<open>os.Open("hosts")\<close> gives (an
  error, or the file, whose bytes are read without error) and what
  \<^verbatim>\<open>ioutil.ReadDir("certs")\<close> gives.
\<close>

record process =
  Args :: "string list"
  Env :: environ
  hostsFile :: "error + string"
  certsDir :: "error + (string \<times> bool) list"

text \<open>
  How the sequential start of \<^verbatim>\<open>main\<close> (lines 153 to 229) ends: \<^verbatim>\<open>os.Exit\<close>, a
  panic, or one goroutine started for each host of the cluster, with the command, the
  credentials and the text of \<^verbatim>\<open>saveHosts\<close>.
\<close>

datatype start = Exit int | Panic panic | Go "host list" string "string list" string

definition mainStart :: "process \<Rightarrow> action list \<times> start" where
  "mainStart P =
     (case Args P of
        [] \<Rightarrow> ([], Panic IndexOutOfRange)
      | argv0 # _ \<Rightarrow>
          if length (Args P) < 3
          then ([Stderr (''usage: cl [cluster] [commands...]'' @ [NL])], Exit 1)
          else case hostsFile P of
            Inl err \<Rightarrow> ([Stderr (argv0 @ '': '' @ err @ [NL])], Exit 1)
          | Inr f \<Rightarrow>
              (let (printed, certs) = readCerts (certsDir P);
                   saveHosts = concat (map (\<lambda>line. line @ [NL]) (ReadLine [] f))
               in case unmarshal (Env P) f of
                    Inl p \<Rightarrow> (printed, Panic p)
                  | Inr cluster \<Rightarrow>
                      (case cluster (Args P ! 1) of
                         None \<Rightarrow> (printed @ [Stderr (argv0 @ '': unknown cluster'' @ [NL])], Exit 1)
                       | Some hosts \<Rightarrow>
                           (printed, Go hosts (StringsJoin (drop 2 (Args P)) '' '') certs saveHosts))))"

section \<open>The aggregation loop and the signal\<close>

datatype signal = SIGINT | SIGKILL

definition codes :: "signal \<rightharpoonup> int" where
  "codes = [SIGINT \<mapsto> 130, SIGKILL \<mapsto> 137]"

text \<open>
  The goroutine of lines 240 to 244 waits for a signal, calls \<^verbatim>\<open>cancel()\<close>, and then
  stores \<^verbatim>\<open>codes[sig]\<close> in \<^verbatim>\<open>code\<close>: two steps, between which \<^verbatim>\<open>main\<close> may run.
\<close>

datatype sigRoutine = Waiting | Cancelled signal | Finished

text \<open>
  The variables of lines 238 to 293: \<^verbatim>\<open>code\<close>, whether \<^verbatim>\<open>errs\<close> and \<^verbatim>\<open>out\<close> are
  \<^verbatim>\<open>nil\<close>, whether the context is cancelled, where the signal goroutine stands, and
  what was written to the two output streams.
\<close>

record aggregator =
  code :: int
  errsNil :: bool
  outNil :: bool
  cancelled :: bool
  sigRoutine :: sigRoutine
  stderr :: "string list"
  stdout :: "string list"

definition initial :: aggregator where
  "initial = \<lparr>code = 0, errsNil = False, outNil = False, cancelled = False,
              sigRoutine = Waiting, stderr = [], stdout = []\<rparr>"

text \<open>
  The steps of the two goroutines: the two steps of the signal goroutine, and one turn of
  the loop of \<^verbatim>\<open>main\<close> for each case of its \<^verbatim>\<open>select\<close>; a receive gives \<open>None\<close> on a
  closed channel.
\<close>

datatype event =
    Signal signal
  | StoreCode
  | Done
  | Errs "error option"
  | Out "string option"

fun outLines :: "string \<Rightarrow> string \<Rightarrow> string list" where
  \<comment> \<open>lines 280 to 289: the writes to the standard output for the bytes \<^verbatim>\<open>p[i:]\<close>\<close>
  "outLines line [] = []"
| "outLines line (b # p) =
     (if b = NL then (''  '' @ line @ [b]) # outLines [] p else outLines (line @ [b]) p)"

definition looping :: "aggregator \<Rightarrow> bool" where
  \<comment> \<open>the condition of the loop of line 253\<close>
  "looping s = (\<not> errsNil s \<and> \<not> outNil s)"

text \<open>
  One step, \<open>None\<close> when the step cannot be taken: the signal goroutine receives one
  signal; \<^verbatim>\<open>main\<close> takes a case only while the loop runs, the case of \<^verbatim>\<open>c.Done()\<close> only
  once the context is cancelled. Every message on \<^verbatim>\<open>out\<close> holds a newline (line 224), so
  a receive of one without is not a step.
\<close>

fun step :: "string \<Rightarrow> aggregator \<Rightarrow> event \<Rightarrow> aggregator option" where
  "step argv0 s (Signal sig) =
     (if sigRoutine s = Waiting then Some (s\<lparr>cancelled := True, sigRoutine := Cancelled sig\<rparr>)
      else None)"
| "step argv0 s StoreCode =
     (case sigRoutine s of
        Cancelled sig \<Rightarrow>
          Some (s\<lparr>code := (case codes sig of None \<Rightarrow> 0 | Some c \<Rightarrow> c), sigRoutine := Finished\<rparr>)
      | _ \<Rightarrow> None)"
| "step argv0 s Done =
     (if looping s \<and> cancelled s
      then Some (s\<lparr>outNil := True, stderr := stderr s @ [argv0 @ '': context canceled'' @ [NL]]\<rparr>)
      else None)"
| "step argv0 s (Errs None) = (if looping s then Some (s\<lparr>errsNil := True\<rparr>) else None)"
| "step argv0 s (Errs (Some err)) =
     (if looping s
      then Some (s\<lparr>code := 1, stderr := stderr s @ [argv0 @ '': '' @ err @ [NL]]\<rparr>)
      else None)"
| "step argv0 s (Out None) = (if looping s then Some (s\<lparr>outNil := True\<rparr>) else None)"
| "step argv0 s (Out (Some p)) =
     (if looping s then
        (case IndexByte p NL of
           None \<Rightarrow> None
         | Some i \<Rightarrow>
             Some (s\<lparr>stderr := stderr s @ [take i p], stdout := stdout s @ outLines [] (drop i p)\<rparr>))
      else None)"

fun steps :: "string \<Rightarrow> aggregator \<Rightarrow> event list \<Rightarrow> aggregator option" where
  "steps argv0 s [] = Some s"
| "steps argv0 s (e # es) = (case step argv0 s e of None \<Rightarrow> None | Some s' \<Rightarrow> steps argv0 s' es)"

definition exitCode :: "string \<Rightarrow> event list \<Rightarrow> int option" where
  \<comment> \<open>line 293: \<^verbatim>\<open>os.Exit(code)\<close>, reached when the loop has ended\<close>
  "exitCode argv0 es =
     (case steps argv0 initial es of
        None \<Rightarrow> None
      | Some s \<Rightarrow> if looping s then None else Some (code s))"

section \<open>Notions of the specification\<close>

text \<open>
  The tokens of a line: the text before the first separator, and the text between the
  first separator and the second.
\<close>

definition firstToken :: "char \<Rightarrow> string \<Rightarrow> string" where
  "firstToken c s = takeWhile (\<lambda>x. x \<noteq> c) s"

definition secondToken :: "char \<Rightarrow> string \<Rightarrow> string" where
  "secondToken c s = takeWhile (\<lambda>x. x \<noteq> c) (tl (dropWhile (\<lambda>x. x \<noteq> c) s))"



text \<open>
  The lines of an inventory: a header is a line that, trimmed, ends with a colon; a host
  line is any other line that is not blank. The nearest header before a line is the name
  of the last header among the lines before it, and the unnamed section when there is
  none.
\<close>

definition isHeader :: "string \<Rightarrow> bool" where
  "isHeader ln = (TrimSpace ln \<noteq> [] \<and> last (TrimSpace ln) = CHR '':'')"

definition isHostLine :: "string \<Rightarrow> bool" where
  "isHostLine ln = (TrimSpace ln \<noteq> [] \<and> last (TrimSpace ln) \<noteq> CHR '':'')"

definition nearestHeader :: "string \<Rightarrow> string list \<Rightarrow> string" where
  \<comment> \<open>first argument: the name of the section when no header comes before\<close>
  "nearestHeader unnamed pre =
     (case filter isHeader (rev pre) of
        [] \<Rightarrow> unnamed
      | ln # _ \<Rightarrow> butlast (TrimSpace ln))"

fun linesWithBefore :: "string list \<Rightarrow> (string list \<times> string) list" where
  \<comment> \<open>each line with the lines before it\<close>
  "linesWithBefore [] = []"
| "linesWithBefore (ln # lns) = ([], ln) # map (\<lambda>(pre, l). (ln # pre, l)) (linesWithBefore lns)"

definition hostsOf :: "environ \<Rightarrow> string \<Rightarrow> string list \<Rightarrow> string \<Rightarrow> host list" where
  \<comment> \<open>the hosts of the host lines whose nearest header is \<open>c\<close>, in the order of the lines\<close>
  "hostsOf env unnamed lns c =
     map (\<lambda>(pre, ln). projr (hostLine env (TrimSpace ln)))
       (filter (\<lambda>(pre, ln). isHostLine ln \<and> nearestHeader unnamed pre = c) (linesWithBefore lns))"

definition sectionOf :: "environ \<Rightarrow> string list \<Rightarrow> string \<Rightarrow> host list option" where
  \<comment> \<open>the inventory that assigns every host line to its nearest header\<close>
  "sectionOf env lns c = (case hostsOf env [] lns c of [] \<Rightarrow> None | hs \<Rightarrow> Some hs)"

text \<open>
  A line on which the two indexings of \<^verbatim>\<open>unmarshal\<close> are in range: when it holds a
  space, the token after the first space is not empty.
\<close>

definition secondTokenOk :: "string \<Rightarrow> bool" where
  "secondTokenOk ln =
     (if CHR '' '' \<in> set (TrimSpace ln) then secondToken (CHR '' '') (TrimSpace ln) \<noteq> [] else True)"

text \<open>
  Modelled from the spec: the grammar of a host entry,
  \<^verbatim>\<open>[user@]host[:port] [credentialPath]\<close>, with the standard \<^verbatim>\<open>host:port\<close> syntax
  (that of \<^verbatim>\<open>net.SplitHostPort\<close>) where a port is given.
\<close>

definition specHostPort :: "string \<Rightarrow> bool" where
  "specHostPort hp =
     (hp \<noteq> [] \<and>
      (if CHR '':'' \<in> set hp
       then (case SplitHostPort hp of Inl _ \<Rightarrow> False | Inr (h, p) \<Rightarrow> h \<noteq> [] \<and> p \<noteq> [])
       else True))"

definition specAddress :: "string \<Rightarrow> bool" where
  "specAddress a =
     (case Split a (CHR ''@'') of
        [hp] \<Rightarrow> specHostPort hp
      | [u, hp] \<Rightarrow> u \<noteq> [] \<and> specHostPort hp
      | _ \<Rightarrow> False)"

definition specHostEntry :: "string \<Rightarrow> bool" where
  "specHostEntry line =
     (case Split line (CHR '' '') of
        [a] \<Rightarrow> specAddress a
      | [a, path] \<Rightarrow> specAddress a \<and> path \<noteq> []
      | _ \<Rightarrow> False)"

definition specHeader :: "string \<Rightarrow> bool" where
  "specHeader line = (line \<noteq> [] \<and> last line = CHR '':'')"

text \<open>
  A credential works for a host and a command when \<^verbatim>\<open>run\<close> returns no error with it;
  \<open>errorOf\<close> and \<open>outputOf\<close> are the error and the output that \<^verbatim>\<open>run\<close> returns, and
  a failure is what the task does with a credential that does not work: the attempt,
  then the error sent on \<^verbatim>\<open>errs\<close>.
\<close>

definition succeeds :: "world \<Rightarrow> host \<Rightarrow> string \<Rightarrow> string \<Rightarrow> bool" where
  "succeeds W h cmd cert = (snd (run (remote W) h cmd (''certs/'' @ cert)) = None)"

definition errorOf :: "world \<Rightarrow> host \<Rightarrow> string \<Rightarrow> string \<Rightarrow> error" where
  "errorOf W h cmd cert = (case snd (run (remote W) h cmd (''certs/'' @ cert)) of None \<Rightarrow> [] | Some err \<Rightarrow> err)"


definition failure :: "world \<Rightarrow> host \<Rightarrow> string \<Rightarrow> string \<Rightarrow> action list" where
  "failure W h cmd cert = [Run h cmd (''certs/'' @ cert), SendErrs (errorOf W h cmd cert)]"

text \<open>
  The values stored in \<^verbatim>\<open>code\<close> along a list of steps, in their order: 1 for an error
  received from \<^verbatim>\<open>errs\<close>, the code of the signal when the signal goroutine stores it.
  The first argument is where the signal goroutine stands. The value stored last is the
  last of them, and 0 when there is none. The steps that end the loop are the case of
  \<^verbatim>\<open>c.Done()\<close> and the receive from a closed channel.
\<close>

fun stores :: "sigRoutine \<Rightarrow> event list \<Rightarrow> int list" where
  "stores r [] = []"
| "stores r (Signal sig # es) = stores (Cancelled sig) es"
| "stores r (StoreCode # es) =
     (case r of
        Cancelled sig \<Rightarrow> (case codes sig of None \<Rightarrow> 0 | Some c \<Rightarrow> c) # stores Finished es
      | _ \<Rightarrow> stores r es)"
| "stores r (Errs (Some err) # es) = 1 # stores r es"
| "stores r (e # es) = stores r es"

definition lastStored :: "event list \<Rightarrow> int" where
  "lastStored es = (case stores Waiting es of [] \<Rightarrow> 0 | c # cs \<Rightarrow> last (c # cs))"

definition closing :: "event \<Rightarrow> bool" where
  "closing e = (e = Done \<or> e = Errs None \<or> e = Out None)"

text \<open>The hosts of a section after more host lines have been read.\<close>

definition addHosts :: "host list option \<Rightarrow> host list \<Rightarrow> host list option" where
  "addHosts old hs = (if hs = [] then old else Some ((case old of None \<Rightarrow> [] | Some x \<Rightarrow> x) @ hs))"

text \<open>What \<^verbatim>\<open>main\<close> reads in the inventory at line 187: the entry of a cluster name.\<close>

definition lookupCluster :: "environ \<Rightarrow> string \<Rightarrow> string \<Rightarrow> panic + host list option" where
  "lookupCluster env r name = (case unmarshal env r of Inl p \<Rightarrow> Inl p | Inr m \<Rightarrow> Inr (m name))"

section \<open>Examples\<close>

definition exampleEnv :: environ where
  "exampleEnv = \<lparr>USER = ''bob'', HOME = ''/home/bob''\<rparr>"

definition exampleInventory :: string where
  "exampleInventory = ''stray'' @ [NL] @ ''web:'' @ [NL] @ ''alice@10.0.0.1 ~/.ssh/k1'' @ [NL] @
     ''db:'' @ [NL] @ [NL] @ ''  10.0.0.2:2222  '' @ [NL] @ ''web:'' @ [CR, NL] @ ''h:1:2''"

definition exampleHost :: host where
  "exampleHost = \<lparr>user = ''alice'', addr = ''10.0.0.1:22'', identity = ''/home/bob/.ssh/k1''\<rparr>"

definition exampleRemote :: remote where
  "exampleRemote h cmd cert =
     (if cert = ''certs/k1'' then DialFails ''ssh: unable to authenticate''
      else if cert = ''certs/k2'' then CombinedOutput (''hi'' @ [NL]) NoError
      else if cert = ''certs/k3'' then CombinedOutput (''no'' @ [NL]) (ExitError ''Process exited with status 1'')
      else ReadFileFails ''open: no such file or directory'')"

definition exampleWorld :: world where
  "exampleWorld = \<lparr>remote = exampleRemote, openHosts = None, openSucc = None, writeSucc = None,
                    closeSucc = None, verbs = (\<lambda>format. format)\<rparr>"

definition exampleProcess :: process where
  "exampleProcess =
     \<lparr>Args = [''cl'', ''mail'', ''uptime''], Env = exampleEnv, hostsFile = Inr exampleInventory,
      certsDir = Inr [(''k1'', False), (''k2'', False), (''old'', True)]\<rparr>"

definition scenarioText :: string where
  "scenarioText = ''web:'' @ [NL] @ ''alice@10.0.0.1 ~/.ssh/k1'' @ [NL]"

definition scenarioProcess :: process where
  "scenarioProcess =
     \<lparr>Args = [''cl'', ''web'', ''echo'', ''hi''], Env = \<lparr>USER = ''alice'', HOME = ''/home/alice''\<rparr>,
      hostsFile = Inr scenarioText, certsDir = Inr [(''k1'', False)]\<rparr>"

definition scenarioRemote :: remote where
  "scenarioRemote h cmd cert =
     (if cert = ''certs/k1'' \<and> cmd = ''echo hi'' then CombinedOutput (''hi'' @ [NL]) NoError
      else DialFails ''ssh: unable to authenticate'')"

definition scenarioWorld :: world where
  "scenarioWorld = \<lparr>remote = scenarioRemote, openHosts = None, openSucc = None, writeSucc = None,
                     closeSucc = None, verbs = (\<lambda>format. format)\<rparr>"

definition scenarioHost :: host where
  "scenarioHost = \<lparr>user = ''alice'', addr = ''10.0.0.1:22'', identity = ''/home/alice/.ssh/k1''\<rparr>"

definition canonicalText :: string where
  "canonicalText = ''web:'' @ [NL] @ ''alice@10.0.0.1:22 /home/alice/.ssh/k1'' @ [NL]"

section \<open>Verification\<close>

subsection \<open>Splitting\<close>

lemma Split_not_Nil: "Split s c \<noteq> []"
  by (induction s) (auto split: list.splits)

lemma Split_append_sep: "Split (a @ c # s) c = Split a c @ Split s c"
proof (induction a)
  case Nil
  then show ?case by simp
next
  case (Cons x a)
  obtain p ps where "Split a c = p # ps"
    using Split_not_Nil [of a c] by (cases "Split a c") auto
  with Cons show ?case by simp
qed

lemma Split_no_sep: "c \<notin> set a \<Longrightarrow> Split a c = [a]"
  by (induction a) auto

lemma Split_first: "c \<notin> set a \<Longrightarrow> Split (a @ c # s) c = a # Split s c"
  by (simp add: Split_append_sep Split_no_sep)

lemma Split_takeWhile:
  "Split s c = takeWhile (\<lambda>x. x \<noteq> c) s #
     (if c \<in> set s then Split (tl (dropWhile (\<lambda>x. x \<noteq> c) s)) c else [])"
proof (induction s)
  case Nil
  then show ?case by simp
next
  case (Cons x s)
  then show ?case by (cases "x = c") auto
qed

lemma Split_two:
  "c \<in> set s \<Longrightarrow> \<exists>ps. Split s c = firstToken c s # secondToken c s # ps"
  unfolding firstToken_def secondToken_def
  by (subst Split_takeWhile, simp, subst Split_takeWhile, simp)


subsection \<open>The host of a line\<close>



lemma Replace_tilde: "Replace (CHR ''~'' # p) ''~'' home 1 = home @ p"
proof -
  have "Replace p ''~'' home 0 = p"
    by (simp add: Replace.simps)
  then show ?thesis
    by (subst Replace.simps) (simp add: HasPrefix_def)
qed

lemma hostUser_cases:
  "hostUser h spec =
     Inr (h\<lparr>user := (if CHR ''@'' \<in> set spec then firstToken (CHR ''@'') spec else user h),
            addr := hostAddr (if CHR ''@'' \<in> set spec then secondToken (CHR ''@'') spec else spec)\<rparr>)"
proof (cases "CHR ''@'' \<in> set spec")
  case True
  from Split_two [OF True] obtain ps where
    "Split spec (CHR ''@'') = firstToken (CHR ''@'') spec # secondToken (CHR ''@'') spec # ps" ..
  then show ?thesis using True by (simp add: hostUser_def Contains_def)
next
  case False
  then show ?thesis by (simp add: hostUser_def Contains_def)
qed

lemma hostLine_cases:
  "hostLine env line =
     (if CHR '' '' \<in> set line then
        (case secondToken (CHR '' '') line of
           [] \<Rightarrow> Inl IndexOutOfRange
         | c # p \<Rightarrow>
             hostUser \<lparr>user = USER env, addr = [],
                       identity = (if c = CHR ''~'' then HOME env @ p else c # p)\<rparr>
               (firstToken (CHR '' '') line))
      else hostUser \<lparr>user = USER env, addr = [], identity = Join [HOME env, ''.ssh'', ''id_rsa'']\<rparr> line)"
proof (cases "CHR '' '' \<in> set line")
  case True
  from Split_two [OF True] obtain ps where
    "Split line (CHR '' '') = firstToken (CHR '' '') line # secondToken (CHR '' '') line # ps" ..
  then show ?thesis using True
    by (auto simp: hostLine_def Contains_def Let_def Replace_tilde split: list.splits)
next
  case False
  then show ?thesis by (simp add: hostLine_def Contains_def)
qed

lemma hostLine_total:
  assumes "secondTokenOk ln"
  shows "\<exists>h. hostLine env (TrimSpace ln) = Inr h"
  using assms
  by (auto simp: secondTokenOk_def hostLine_cases hostUser_cases split: list.splits if_splits)

lemma hostLine_double_space:
  assumes "CHR '' '' \<notin> set a"
  shows "hostLine env (a @ ''  '' @ b) = Inl IndexOutOfRange"
proof -
  have "Split (a @ ''  '' @ b) (CHR '' '') = a # [] # Split b (CHR '' '')"
    using assms Split_first [of "CHR '' ''" a "CHR '' '' # b"] by simp
  then show ?thesis
    by (simp add: hostLine_def Contains_def Let_def)
qed

subsection \<open>The default identity\<close>





subsection \<open>Sections of the inventory\<close>

lemma nearestHeader_Cons:
  "nearestHeader unnamed (ln # pre) =
     nearestHeader (if isHeader ln then butlast (TrimSpace ln) else unnamed) pre"
  by (auto simp: nearestHeader_def split: list.splits)

lemma hostsOf_Cons:
  "hostsOf env unnamed (ln # lns) c =
     (if isHostLine ln \<and> unnamed = c then [projr (hostLine env (TrimSpace ln))] else []) @
     hostsOf env (if isHeader ln then butlast (TrimSpace ln) else unnamed) lns c"
proof -
  let ?d = "if isHeader ln then butlast (TrimSpace ln) else unnamed"
  let ?g = "\<lambda>(pre, l). (ln # pre, l)"
  let ?P = "\<lambda>d (pre, l). isHostLine l \<and> nearestHeader d pre = c"
  let ?f = "\<lambda>(pre, l). projr (hostLine env (TrimSpace l))"
  have P: "?P unnamed \<circ> ?g = ?P ?d"
    by (auto simp: fun_eq_iff nearestHeader_Cons)
  have f: "?f \<circ> ?g = ?f"
    by (auto simp: fun_eq_iff)
  have "map ?f (filter (?P unnamed) (map ?g (linesWithBefore lns)))
      = map (?f \<circ> ?g) (filter (?P unnamed \<circ> ?g) (linesWithBefore lns))"
    by (simp only: filter_map map_map)
  also have "\<dots> = map ?f (filter (?P ?d) (linesWithBefore lns))"
    by (simp only: P f)
  finally have rest: "map ?f (filter (?P unnamed) (map ?g (linesWithBefore lns))) = hostsOf env ?d lns c"
    by (simp only: hostsOf_def)
  have "hostsOf env unnamed (ln # lns) c =
          map ?f (filter (?P unnamed) [([], ln)]) @ map ?f (filter (?P unnamed) (map ?g (linesWithBefore lns)))"
    by (simp add: hostsOf_def)
  also have "map ?f (filter (?P unnamed) [([], ln)]) =
          (if isHostLine ln \<and> unnamed = c then [projr (hostLine env (TrimSpace ln))] else [])"
    by (simp add: nearestHeader_def)
  finally show ?thesis
    by (simp only: rest)
qed

lemma unmarshalLoop_sections:
  assumes "\<forall>ln \<in> set lns. isHostLine ln \<longrightarrow> secondTokenOk ln"
  shows "\<exists>m'. unmarshalLoop env cur m lns = Inr m' \<and>
           (\<forall>c. m' c = addHosts (m c) (hostsOf env cur lns c))"
  using assms
proof (induction lns arbitrary: cur m)
  case Nil
  then show ?case by (simp add: hostsOf_def addHosts_def)
next
  case (Cons ln lns)
  then have rest: "\<forall>l \<in> set lns. isHostLine l \<longrightarrow> secondTokenOk l" by simp
  show ?case
  proof (cases "TrimSpace ln = []")
    case True
    then have "\<not> isHostLine ln" "\<not> isHeader ln" by (simp_all add: isHostLine_def isHeader_def)
    then show ?thesis
      using Cons.IH [OF rest, of cur m] True by (simp add: hostsOf_Cons)
  next
    case ne: False
    show ?thesis
    proof (cases "last (TrimSpace ln) = CHR '':''")
      case True
      then have "\<not> isHostLine ln" "isHeader ln" using ne by (simp_all add: isHostLine_def isHeader_def)
      then show ?thesis
        using Cons.IH [OF rest, of "butlast (TrimSpace ln)" m] True ne by (simp add: hostsOf_Cons)
    next
      case False
      then have hl: "isHostLine ln" and nh: "\<not> isHeader ln"
        using ne by (simp_all add: isHostLine_def isHeader_def)
      then have "secondTokenOk ln" using Cons.prems by simp
      then obtain h where h: "hostLine env (TrimSpace ln) = Inr h"
        using hostLine_total by blast
      let ?m1 = "if m cur = None then m(cur \<mapsto> []) else m"
      let ?m2 = "?m1(cur \<mapsto> (case ?m1 cur of None \<Rightarrow> [] | Some hs \<Rightarrow> hs) @ [h])"
      from Cons.IH [OF rest, of cur ?m2] obtain m' where
        m': "unmarshalLoop env cur ?m2 lns = Inr m'"
        and all: "\<forall>c. m' c = addHosts (?m2 c) (hostsOf env cur lns c)"
        by blast
      have "unmarshalLoop env cur m (ln # lns) = Inr m'"
        using ne False h m' by (simp add: Let_def)
      moreover have "m' c = addHosts (m c) (hostsOf env cur (ln # lns) c)" for c
      proof (cases "c = cur")
        case True
        then show ?thesis
          using all hl nh h by (auto simp: hostsOf_Cons addHosts_def split: option.splits)
      next
        case False
        then show ?thesis
          using all hl nh h by (auto simp: hostsOf_Cons addHosts_def)
      qed
      ultimately show ?thesis by blast
    qed
  qed
qed

lemma unmarshalLoop_panics:
  assumes "ln \<in> set lns" "TrimSpace ln = a @ ''  '' @ b" "CHR '' '' \<notin> set a"
    "last (TrimSpace ln) \<noteq> CHR '':''"
  shows "unmarshalLoop env cur m lns = Inl IndexOutOfRange"
  using assms(1)
proof (induction lns arbitrary: cur m)
  case Nil
  then show ?case by simp
next
  case (Cons x xs)
  show ?case
  proof (cases "x = ln")
    case True
    have "TrimSpace ln \<noteq> []" using assms(2) by simp
    then show ?thesis
      using True assms(2,3,4) hostLine_double_space [OF assms(3), of env b]
      by (simp add: Let_def)
  next
    case False
    then have "ln \<in> set xs" using Cons.prems by simp
    then have IH: "\<And>cur m. unmarshalLoop env cur m xs = Inl IndexOutOfRange"
      using Cons.IH by blast
    show ?thesis
      by (cases "hostLine env (TrimSpace x)") (auto simp: Let_def IH intro: panic.exhaust)
  qed
qed

subsection \<open>The task of one host\<close>







lemma taskLoop_fail:
  assumes "\<not> succeeds W h cmd cert"
  shows "taskLoop W h cmd sh (cert # certs) =
           (failure W h cmd cert @ fst (taskLoop W h cmd sh certs), snd (taskLoop W h cmd sh certs))"
  using assms
  by (cases "run (remote W) h cmd (''certs/'' @ cert)")
     (auto simp: succeeds_def failure_def errorOf_def split: prod.splits)

lemma taskLoop_fails:
  assumes "list_all (\<lambda>c. \<not> succeeds W h cmd c) pre"
  shows "taskLoop W h cmd sh (pre @ certs) =
           (concat (map (failure W h cmd) pre) @ fst (taskLoop W h cmd sh certs),
            snd (taskLoop W h cmd sh certs))"
  using assms
proof (induction pre)
  case Nil
  then show ?case by simp
next
  case (Cons c pre)
  then have c: "\<not> succeeds W h cmd c" and pre: "list_all (\<lambda>c. \<not> succeeds W h cmd c) pre"
    by simp_all
  show ?case
    using taskLoop_fail [OF c, of sh "pre @ certs"] Cons.IH [OF pre] by simp
qed





subsection \<open>The steps of the aggregation loop\<close>

lemma codes_cases: "(case codes sig of None \<Rightarrow> 0 | Some c \<Rightarrow> c) \<in> {130, 137}"
  by (cases sig) (simp_all add: codes_def)

lemma initial_simps:
  "code initial = 0" "sigRoutine initial = Waiting" "looping initial"
  by (simp_all add: initial_def looping_def)

lemma step_code:
  assumes "step argv0 s e = Some s'"
  shows "code s' = (case stores (sigRoutine s) [e] of [] \<Rightarrow> code s | c # cs \<Rightarrow> c)"
  using assms
  by (cases "(argv0, s, e)" rule: step.cases)
     (auto split: if_splits sigRoutine.splits option.splits)

lemma step_stores:
  assumes "step argv0 s e = Some s'"
  shows "stores (sigRoutine s) (e # es) = stores (sigRoutine s) [e] @ stores (sigRoutine s') es"
  using assms
  by (cases "(argv0, s, e)" rule: step.cases)
     (auto split: if_splits sigRoutine.splits option.splits)

lemma step_looping:
  assumes "step argv0 s e = Some s'"
  shows "looping s' \<longleftrightarrow> looping s \<and> \<not> closing e"
  using assms
  by (cases "(argv0, s, e)" rule: step.cases)
     (auto simp: looping_def closing_def split: if_splits sigRoutine.splits option.splits)

lemma stores_single: "length (stores r [e]) \<le> 1"
  by (cases "(r, [e])" rule: stores.cases) (auto split: sigRoutine.splits)

lemma steps_code:
  assumes "steps argv0 s es = Some s'"
  shows "code s' = (case stores (sigRoutine s) es of [] \<Rightarrow> code s | c # cs \<Rightarrow> last (c # cs))"
  using assms
proof (induction es arbitrary: s)
  case Nil
  then show ?case by simp
next
  case (Cons e es)
  then obtain s1 where s1: "step argv0 s e = Some s1" and rest: "steps argv0 s1 es = Some s'"
    by (auto split: option.splits)
  note IH = Cons.IH [OF rest]
  have single: "stores (sigRoutine s) [e] = [] \<or> (\<exists>c. stores (sigRoutine s) [e] = [c])"
    using stores_single [of "sigRoutine s" e]
    by (cases "stores (sigRoutine s) [e]") auto
  show ?case
    unfolding step_stores [OF s1, of es]
    using IH step_code [OF s1] single
    by (cases "stores (sigRoutine s1) es") auto
qed

lemma steps_looping:
  assumes "steps argv0 s es = Some s'"
  shows "looping s' \<longleftrightarrow> looping s \<and> list_all (\<lambda>e. \<not> closing e) es"
  using assms
proof (induction es arbitrary: s)
  case Nil
  then show ?case by simp
next
  case (Cons e es)
  then obtain s1 where s1: "step argv0 s e = Some s1" and rest: "steps argv0 s1 es = Some s'"
    by (auto split: option.splits)
  show ?case
    using Cons.IH [OF rest] step_looping [OF s1] by auto
qed

lemma stores_range: "set (stores r es) \<subseteq> {1, 130, 137}"
proof (induction r es rule: stores.induct)
  case (3 r es)
  then show ?case
    using codes_cases by (cases r) auto
qed auto

section \<open>The claims about the inventory\<close>

text \<open>
  Claim C5, as the code has it. \<^verbatim>\<open>unmarshal\<close> has no parse error: its only failure is
  the panic of an index out of range. On every text whose host lines, among the lines
  the scanner delivers, have a non-empty token after their first space, it returns an
  inventory, and this inventory assigns each host line to the nearest header before it,
  or to the unnamed section, in the order of the lines; a section without host line has
  no entry.
\<close>

theorem unmarshal_total_and_sections:
  assumes "list_all secondTokenOk (filter isHostLine (Scan r))"
  shows "unmarshal env r = Inr (sectionOf env (Scan r))"
proof -
  from assms have ok: "\<forall>ln \<in> set (Scan r). isHostLine ln \<longrightarrow> secondTokenOk ln"
    by (simp add: list_all_iff)
  from unmarshalLoop_sections [OF ok, of env "[]" Map.empty] obtain m' where
    m': "unmarshalLoop env [] Map.empty (Scan r) = Inr m'"
    and all: "\<forall>c. m' c = addHosts None (hostsOf env [] (Scan r) c)"
    by auto
  have "m' c = sectionOf env (Scan r) c" for c
    using all by (cases "hostsOf env [] (Scan r) c") (simp_all add: sectionOf_def addHosts_def)
  then have "m' = sectionOf env (Scan r)" by (simp add: fun_eq_iff)
  with m' show ?thesis by (simp add: unmarshal_def)
qed

text \<open>
  Claim C5, witness: an inventory with a host line before any header, two sections named
  \<^verbatim>\<open>web\<close>, a blank line, a line with spaces around it, a carriage return and a last
  line without newline.
\<close>

theorem unmarshal_total_and_sections_witness:
  "list_all secondTokenOk (filter isHostLine (Scan exampleInventory)) \<and>
   unmarshal exampleEnv exampleInventory = Inr (sectionOf exampleEnv (Scan exampleInventory)) \<and>
   sectionOf exampleEnv (Scan exampleInventory) '''' =
     Some [\<lparr>user = ''bob'', addr = ''stray:22'', identity = ''/home/bob/.ssh/id_rsa''\<rparr>] \<and>
   sectionOf exampleEnv (Scan exampleInventory) ''web'' =
     Some [\<lparr>user = ''alice'', addr = ''10.0.0.1:22'', identity = ''/home/bob/.ssh/k1''\<rparr>,
           \<lparr>user = ''bob'', addr = ''[h:1:2]:22'', identity = ''/home/bob/.ssh/id_rsa''\<rparr>] \<and>
   sectionOf exampleEnv (Scan exampleInventory) ''db'' =
     Some [\<lparr>user = ''bob'', addr = ''10.0.0.2:2222'', identity = ''/home/bob/.ssh/id_rsa''\<rparr>] \<and>
   sectionOf exampleEnv (Scan exampleInventory) ''mail'' = None"
proof -
  have ok: "list_all secondTokenOk (filter isHostLine (Scan exampleInventory))"
    by code_simp
  have "sectionOf exampleEnv (Scan exampleInventory) '''' =
     Some [\<lparr>user = ''bob'', addr = ''stray:22'', identity = ''/home/bob/.ssh/id_rsa''\<rparr>]"
    by code_simp
  moreover have "sectionOf exampleEnv (Scan exampleInventory) ''web'' =
     Some [\<lparr>user = ''alice'', addr = ''10.0.0.1:22'', identity = ''/home/bob/.ssh/k1''\<rparr>,
           \<lparr>user = ''bob'', addr = ''[h:1:2]:22'', identity = ''/home/bob/.ssh/id_rsa''\<rparr>]"
    by code_simp
  moreover have "sectionOf exampleEnv (Scan exampleInventory) ''db'' =
     Some [\<lparr>user = ''bob'', addr = ''10.0.0.2:2222'', identity = ''/home/bob/.ssh/id_rsa''\<rparr>]"
    by code_simp
  moreover have "sectionOf exampleEnv (Scan exampleInventory) ''mail'' = None"
    by code_simp
  ultimately show ?thesis
    using ok unmarshal_total_and_sections [OF ok, of exampleEnv] by simp
qed

text \<open>
  Claim C5, counterexample to the claim as stated: the line \<^verbatim>\<open>h:1:2\<close> is neither a
  header nor a host entry of the grammar (\<^verbatim>\<open>net.SplitHostPort\<close> rejects it for its
  colons), and \<^verbatim>\<open>unmarshal\<close> reports no error: it keeps the whole text as the host,
  with port 22.
\<close>

theorem unmarshal_no_ParseError_counterexample:
  "''h:1:2'' \<in> set (Scan (''web:'' @ [NL] @ ''h:1:2'' @ [NL])) \<and>
   \<not> specHeader ''h:1:2'' \<and> \<not> specHostEntry ''h:1:2'' \<and>
   lookupCluster exampleEnv (''web:'' @ [NL] @ ''h:1:2'' @ [NL]) ''web'' =
     Inr (Some [\<lparr>user = ''bob'', addr = ''[h:1:2]:22'', identity = ''/home/bob/.ssh/id_rsa''\<rparr>])"
  by code_simp



text \<open>
  Claim C10. A host line in which the first space is followed at once by a second one
  has an empty token after the first space; \<^verbatim>\<open>unmarshal\<close> reads the first character of
  this empty string, and the parse of every text that holds such a line ends in the panic
  of an index out of range.
\<close>

theorem unmarshal_double_space_panics:
  assumes "ln \<in> set (Scan r)"
    and "TrimSpace ln = a @ ''  '' @ b"
    and "CHR '' '' \<notin> set a"
    and "last (TrimSpace ln) \<noteq> CHR '':''"
  shows "unmarshal env r = Inl IndexOutOfRange"
  unfolding unmarshal_def using assms by (rule unmarshalLoop_panics)

text \<open>Claim C10, witness: the line \<^verbatim>\<open>host  key\<close> in the section \<^verbatim>\<open>web\<close>.\<close>

theorem unmarshal_double_space_panics_witness:
  "''host  key'' \<in> set (Scan (''web:'' @ [NL] @ ''host  key'' @ [NL])) \<and>
   TrimSpace ''host  key'' = ''host'' @ ''  '' @ ''key'' \<and>
   CHR '' '' \<notin> set ''host'' \<and>
   last (TrimSpace ''host  key'') \<noteq> CHR '':'' \<and>
   unmarshal exampleEnv (''web:'' @ [NL] @ ''host  key'' @ [NL]) = Inl IndexOutOfRange"
proof -
  have 1: "''host  key'' \<in> set (Scan (''web:'' @ [NL] @ ''host  key'' @ [NL]))"
    by code_simp
  have 2: "TrimSpace ''host  key'' = ''host'' @ ''  '' @ ''key''"
    by code_simp
  have 3: "CHR '' '' \<notin> set ''host''"
    by simp
  have 4: "last (TrimSpace ''host  key'') \<noteq> CHR '':''"
    by code_simp
  from unmarshal_double_space_panics [OF 1 2 3 4] 1 2 3 4 show ?thesis
    by blast
qed

section \<open>The claims about the tasks\<close>



text \<open>
  Claim C2, as the code has it. When no credential works, the task sends one error on
  \<^verbatim>\<open>errs\<close> for each credential, right after the attempt with it and carrying its error,
  in the order of the catalog; it does nothing else and leaves \<^verbatim>\<open>saveHosts\<close> as it
  is. There are as many failures as credentials, and none for an empty catalog.
\<close>

theorem taskLoop_all_fail:
  assumes "list_all (\<lambda>c. \<not> succeeds W h cmd c) certs"
  shows "taskLoop W h cmd sh certs = (concat (map (failure W h cmd) certs), sh)"
  using taskLoop_fails [OF assms, of sh "[]"] by simp

text \<open>Claim C2, witness: two credentials, the first rejected, the second not readable.\<close>

theorem taskLoop_all_fail_witness:
  "list_all (\<lambda>c. \<not> succeeds exampleWorld exampleHost ''uptime'' c) [''k1'', ''k4''] \<and>
   taskLoop exampleWorld exampleHost ''uptime'' scenarioText [''k1'', ''k4''] =
     ([Run exampleHost ''uptime'' ''certs/k1'', SendErrs ''ssh: unable to authenticate'',
       Run exampleHost ''uptime'' ''certs/k4'', SendErrs ''open: no such file or directory''],
      scenarioText)"
proof -
  have 1: "list_all (\<lambda>c. \<not> succeeds exampleWorld exampleHost ''uptime'' c) [''k1'', ''k4'']"
    by code_simp
  have 2: "errorOf exampleWorld exampleHost ''uptime'' ''k1'' = ''ssh: unable to authenticate''"
    by code_simp
  have 3: "errorOf exampleWorld exampleHost ''uptime'' ''k4'' = ''open: no such file or directory''"
    by code_simp
  from taskLoop_all_fail [OF 1, of scenarioText] 1 2 3 show ?thesis
    by (simp add: failure_def del: taskLoop.simps)
qed

text \<open>
  Claim C2, counterexample to the claim as stated: with two credentials that both fail the
  task reports two failures, not one; with a rejected credential followed by an accepted
  one the error of the first has been reported although the credentials are not
  exhausted; and with no credential no failure is reported.
\<close>

theorem taskLoop_failure_per_attempt_counterexample:
  "sentErrs (fst (taskLoop exampleWorld exampleHost ''uptime'' scenarioText [''k1'', ''k4''])) =
     [''ssh: unable to authenticate'', ''open: no such file or directory''] \<and>
   sentErrs (fst (taskLoop exampleWorld exampleHost ''uptime'' scenarioText [''k1'', ''k2''])) =
     [''ssh: unable to authenticate''] \<and>
   sentOut (fst (taskLoop exampleWorld exampleHost ''uptime'' scenarioText [''k1'', ''k2''])) =
     [''Host: 10.0.0.1:22'' @ [NL] @ ''hi'' @ [NL]] \<and>
   sentErrs (fst (taskLoop exampleWorld exampleHost ''uptime'' scenarioText [])) = []"
  by code_simp



text \<open>
  Claim C7, as the code has it. When the directory of the credentials cannot be read,
  \<^verbatim>\<open>readCerts\<close> prints the error and returns no credential; \<^verbatim>\<open>main\<close> goes on as with an
  empty directory; and the task of a host then ends at once: it attempts nothing and
  sends nothing, neither an error nor an output.
\<close>

theorem unreadable_certs_no_outcome:
  "snd (mainStart (P\<lparr>certsDir := Inl err\<rparr>)) = snd (mainStart (P\<lparr>certsDir := Inr []\<rparr>)) \<and>
   readCerts (Inl err) = ([Println err], []) \<and>
   taskLoop W h cmd sh (snd (readCerts (Inl err))) = ([], sh)"
  by (auto simp: mainStart_def readCerts_def Let_def split: list.splits sum.splits option.splits)

text \<open>Claim C7, witness: the scenario of the specification, with the directory not readable.\<close>

theorem unreadable_certs_no_outcome_witness:
  "snd (mainStart (scenarioProcess\<lparr>certsDir := Inl ''open certs: no such file or directory''\<rparr>)) =
     Go [scenarioHost] ''echo hi'' [] scenarioText \<and>
   taskLoop scenarioWorld scenarioHost ''echo hi'' scenarioText
     (snd (readCerts (Inl ''open certs: no such file or directory''))) = ([], scenarioText)"
proof -
  have "snd (mainStart (scenarioProcess\<lparr>certsDir := Inr []\<rparr>)) = Go [scenarioHost] ''echo hi'' [] scenarioText"
    by code_simp
  with unreadable_certs_no_outcome [where P = scenarioProcess and err = "''open certs: no such file or directory''"
      and W = scenarioWorld and h = scenarioHost and cmd = "''echo hi''" and sh = scenarioText]
  show ?thesis by simp
qed

text \<open>
  Claim C7, counterexample to the claim as stated: with the directory not readable the
  task of the host reports no failure.
\<close>

theorem unreadable_certs_no_failure_counterexample:
  "readCerts (Inl ''open certs: no such file or directory'') =
     ([Println ''open certs: no such file or directory''], []) \<and>
   taskLoop scenarioWorld scenarioHost ''echo hi'' scenarioText
     (snd (readCerts (Inl ''open certs: no such file or directory''))) = ([], scenarioText) \<and>
   sentErrs (fst (taskLoop scenarioWorld scenarioHost ''echo hi'' scenarioText
     (snd (readCerts (Inl ''open certs: no such file or directory''))))) = []"
  by code_simp

text \<open>
  Claim C3, the code at the scenario of the specification. The inventory is
  \<^verbatim>\<open>web:\<close>, \<^verbatim>\<open>alice@10.0.0.1 ~/.ssh/k1\<close>, and the credential \<^verbatim>\<open>k1\<close> works. The task
  writes the audit line \<^verbatim>\<open>alice@10.0.0.1:22 k1 hi\<close> and rewrites \<^verbatim>\<open>hosts\<close> with the
  text it had: the line of the host is still there. The text searched for is made of the
  stored address and identity, \<^verbatim>\<open>alice@10.0.0.1:22 /home/alice/.ssh/k1\<close>, which the line
  of the file, without port and with \<^verbatim>\<open>~\<close>, does not hold.
\<close>

theorem scenario_hosts_line_kept:
  "mainStart scenarioProcess = ([], Go [scenarioHost] ''echo hi'' [''k1''] scenarioText) \<and>
   taskLoop scenarioWorld scenarioHost ''echo hi'' scenarioText [''k1''] =
     ([Run scenarioHost ''echo hi'' ''certs/k1'',
       WriteHosts (''web:'' @ [NL] @ ''alice@10.0.0.1 ~/.ssh/k1'' @ [NL]),
       AppendSucc (''alice@10.0.0.1:22 k1 hi'' @ [NL]),
       SendOut (''Host: 10.0.0.1:22'' @ [NL] @ ''hi'' @ [NL])],
      ''web:'' @ [NL] @ ''alice@10.0.0.1 ~/.ssh/k1'' @ [NL])"
  by code_simp

text \<open>
  When the line of the file is written in full, with the port and the expanded path, the
  same host is parsed and its line is removed.
\<close>

lemma canonical_line_removed:
  "lookupCluster (Env scenarioProcess) canonicalText ''web'' = Inr (Some [scenarioHost]) \<and>
   taskLoop scenarioWorld scenarioHost ''echo hi'' canonicalText [''k1''] =
     ([Run scenarioHost ''echo hi'' ''certs/k1'',
       WriteHosts (''web:'' @ [NL]),
       AppendSucc (''alice@10.0.0.1:22 k1 hi'' @ [NL]),
       SendOut (''Host: 10.0.0.1:22'' @ [NL] @ ''hi'' @ [NL])],
      ''web:'' @ [NL])"
  by code_simp

section \<open>The claims about main\<close>

text \<open>
  Claim C8. When the inventory is read and parsed and has no entry for the cluster named
  by the first argument, \<^verbatim>\<open>main\<close> exits with code 1: no goroutine is started, no call of
  \<^verbatim>\<open>run\<close> is made, and nothing is written to \<^verbatim>\<open>hosts\<close> or to \<^verbatim>\<open>succ.txt\<close>.
\<close>

theorem unknown_cluster_exits:
  assumes "3 \<le> length (Args P)"
    and "hostsFile P = Inr f"
    and "lookupCluster (Env P) f (Args P ! 1) = Inr None"
  shows "snd (mainStart P) = Exit 1 \<and>
         filter mutates (fst (mainStart P)) = [] \<and>
         runs (fst (mainStart P)) = []"
  using assms
  by (auto simp: mainStart_def lookupCluster_def readCerts_def Let_def
      split: list.splits sum.splits option.splits prod.splits)

text \<open>Claim C8, witness: the cluster \<^verbatim>\<open>mail\<close>, which the example inventory does not have.\<close>

theorem unknown_cluster_exits_witness:
  "hostsFile exampleProcess = Inr exampleInventory \<and>
   lookupCluster (Env exampleProcess) exampleInventory (Args exampleProcess ! 1) = Inr None \<and>
   mainStart exampleProcess = ([Stderr (''cl: unknown cluster'' @ [NL])], Exit 1)"
proof -
  have 1: "3 \<le> length (Args exampleProcess)" by (simp add: exampleProcess_def)
  have 2: "hostsFile exampleProcess = Inr exampleInventory" by (simp add: exampleProcess_def)
  have 3: "lookupCluster (Env exampleProcess) exampleInventory (Args exampleProcess ! 1) = Inr None"
    by code_simp
  have 4: "fst (mainStart exampleProcess) = [Stderr (''cl: unknown cluster'' @ [NL])]"
    by code_simp
  from unknown_cluster_exits [OF 1 2 3] 2 3 4 show ?thesis
    by (simp add: prod_eq_iff)
qed

text \<open>
  Claim C4, as the code has it. Along every list of steps from the start: the loop has
  ended exactly when one of the steps was the case of \<^verbatim>\<open>c.Done()\<close> or the receive from
  a closed channel; the value of \<^verbatim>\<open>code\<close>, with which the process exits once the loop
  has ended, is the one stored last, by an error received or by the signal goroutine,
  and 0 when nothing was stored; and it is one of 0, 1, 130 and 137.
\<close>

theorem aggregation_exit_code:
  assumes "steps argv0 initial es = Some s"
  shows "(looping s \<longleftrightarrow> list_all (\<lambda>e. \<not> closing e) es) \<and>
         code s = lastStored es \<and>
         exitCode argv0 es = (if looping s then None else Some (lastStored es)) \<and>
         lastStored es \<in> {0, 1, 130, 137}"
proof -
  have l: "looping s \<longleftrightarrow> list_all (\<lambda>e. \<not> closing e) es"
    using steps_looping [OF assms] by (simp add: initial_simps)
  have c: "code s = lastStored es"
    using steps_code [OF assms] by (simp add: initial_simps lastStored_def split: list.splits)
  have e: "exitCode argv0 es = (if looping s then None else Some (lastStored es))"
    using assms c by (simp add: exitCode_def)
  have "lastStored es \<in> {0, 1, 130, 137}"
  proof (cases "stores Waiting es")
    case Nil
    then show ?thesis by (simp add: lastStored_def)
  next
    case (Cons c cs)
    then have "last (c # cs) \<in> set (stores Waiting es)"
      using last_in_set [of "c # cs"] by simp
    then have "last (c # cs) \<in> {1, 130, 137}"
      using stores_range [of Waiting es] by blast
    then show ?thesis using Cons by (auto simp: lastStored_def)
  qed
  with l c e show ?thesis by simp
qed

text \<open>
  Claim C4, witness: an error, then the interrupt, whose code is stored before the loop
  takes the case of \<^verbatim>\<open>c.Done()\<close>: the exit code is 130; and a run without error nor
  signal: the exit code is 0.
\<close>

theorem aggregation_exit_code_witness:
  "exitCode ''cl'' [Errs (Some ''ssh: unable to authenticate''), Signal SIGINT, StoreCode, Done] = Some 130 \<and>
   lastStored [Errs (Some ''ssh: unable to authenticate''), Signal SIGINT, StoreCode, Done] = 130 \<and>
   exitCode ''cl'' [Out (Some (''Host: h:22'' @ [NL] @ ''hi'' @ [NL])), Errs None] = Some 0"
proof -
  let ?es = "[Errs (Some ''ssh: unable to authenticate''), Signal SIGINT, StoreCode, Done]"
  obtain s where s: "steps ''cl'' initial ?es = Some s"
    by (simp add: initial_def looping_def)
  have 1: "lastStored ?es = 130" by (simp add: lastStored_def codes_def)
  have 2: "\<not> list_all (\<lambda>e. \<not> closing e) ?es" by (simp add: closing_def)
  from aggregation_exit_code [OF s] 1 2 have "exitCode ''cl'' ?es = Some 130" by simp
  moreover have "exitCode ''cl'' [Out (Some (''Host: h:22'' @ [NL] @ ''hi'' @ [NL])), Errs None] = Some 0"
    by code_simp
  ultimately show ?thesis using 1 by simp
qed

text \<open>
  Claim C4, counterexample to the claim as stated: the interrupt is received and its code
  130 is stored; the loop then receives an error from a task, which was ready to send it
  when the \<^verbatim>\<open>select\<close> chose, and takes the case of \<^verbatim>\<open>c.Done()\<close> at the next turn: the
  process exits with code 1.
\<close>

theorem signal_code_overwritten_counterexample:
  "map_option code (steps ''cl'' initial [Signal SIGINT, StoreCode]) = Some 130 \<and>
   exitCode ''cl'' [Signal SIGINT, StoreCode, Errs (Some ''ssh: unable to authenticate''), Done] = Some 1"
  by code_simp

end
